theory Spec2Isabelle
  imports Complex_Main
begin

section \<open>Numbers as numpy computes with them\<close>

text \<open>
  The values of regression.py are numpy float64 numbers. They are modelled as exact reals
  extended with the three special values of IEEE arithmetic, so that the places where
  numpy returns \<open>nan\<close> or \<open>inf\<close> with a warning instead of raising (square root of a
  negative number, division by zero, logarithm of a non-positive number) are branches of
  the model. Rounding, overflow and the sign of zero are not modelled.
\<close>

datatype npfloat = Fin real | PInf | NInf | NaN

fun np_neg :: "npfloat \<Rightarrow> npfloat" where
  "np_neg (Fin a) = Fin (- a)"
| "np_neg PInf = NInf"
| "np_neg NInf = PInf"
| "np_neg NaN = NaN"

fun np_add :: "npfloat \<Rightarrow> npfloat \<Rightarrow> npfloat" where
  "np_add (Fin a) (Fin b) = Fin (a + b)"
| "np_add NaN _ = NaN"
| "np_add _ NaN = NaN"
| "np_add PInf NInf = NaN"
| "np_add NInf PInf = NaN"
| "np_add PInf _ = PInf"
| "np_add _ PInf = PInf"
| "np_add NInf _ = NInf"
| "np_add _ NInf = NInf"

definition np_sub :: "npfloat \<Rightarrow> npfloat \<Rightarrow> npfloat" where
  "np_sub a b = np_add a (np_neg b)"

text \<open>The product of an infinity with a finite factor \<open>a\<close>: \<open>inf * 0\<close> is \<open>nan\<close>.\<close>

definition inf_times :: "bool \<Rightarrow> real \<Rightarrow> npfloat" where
  "inf_times positive a =
     (if a = 0 then NaN else if (0 < a) = positive then PInf else NInf)"

fun np_mul :: "npfloat \<Rightarrow> npfloat \<Rightarrow> npfloat" where
  "np_mul (Fin a) (Fin b) = Fin (a * b)"
| "np_mul NaN _ = NaN"
| "np_mul _ NaN = NaN"
| "np_mul (Fin a) PInf = inf_times True a"
| "np_mul (Fin a) NInf = inf_times False a"
| "np_mul PInf (Fin b) = inf_times True b"
| "np_mul NInf (Fin b) = inf_times False b"
| "np_mul PInf PInf = PInf"
| "np_mul NInf NInf = PInf"
| "np_mul PInf NInf = NInf"
| "np_mul NInf PInf = NInf"

text \<open>
  Division of numpy scalars never raises: a finite non-zero number over zero is an
  infinity, \<open>0 / 0\<close> and \<open>inf / inf\<close> are \<open>nan\<close>.
\<close>

fun np_div :: "npfloat \<Rightarrow> npfloat \<Rightarrow> npfloat" where
  "np_div (Fin a) (Fin b) =
     (if b \<noteq> 0 then Fin (a / b)
      else if a = 0 then NaN else if 0 < a then PInf else NInf)"
| "np_div NaN _ = NaN"
| "np_div _ NaN = NaN"
| "np_div (Fin a) PInf = Fin 0"
| "np_div (Fin a) NInf = Fin 0"
| "np_div PInf (Fin b) = (if 0 \<le> b then PInf else NInf)"
| "np_div NInf (Fin b) = (if 0 \<le> b then NInf else PInf)"
| "np_div PInf PInf = NaN"
| "np_div PInf NInf = NaN"
| "np_div NInf PInf = NaN"
| "np_div NInf NInf = NaN"

fun np_sqrt :: "npfloat \<Rightarrow> npfloat" where
  "np_sqrt (Fin a) = (if a < 0 then NaN else Fin (sqrt a))"
| "np_sqrt PInf = PInf"
| "np_sqrt NInf = NaN"
| "np_sqrt NaN = NaN"

fun np_abs :: "npfloat \<Rightarrow> npfloat" where
  "np_abs (Fin a) = Fin \<bar>a\<bar>"
| "np_abs PInf = PInf"
| "np_abs NInf = PInf"
| "np_abs NaN = NaN"

fun np_log10 :: "npfloat \<Rightarrow> npfloat" where
  "np_log10 (Fin a) = (if 0 < a then Fin (log 10 a) else if a = 0 then NInf else NaN)"
| "np_log10 PInf = PInf"
| "np_log10 NInf = NaN"
| "np_log10 NaN = NaN"

text \<open>\<open>x ** 2\<close> on a float64 scalar.\<close>

definition np_square :: "npfloat \<Rightarrow> npfloat" where
  "np_square a = np_mul a a"

definition np_sum :: "npfloat list \<Rightarrow> npfloat" where
  "np_sum xs = foldl np_add (Fin 0) xs"

definition isfinite :: "npfloat \<Rightarrow> bool" where
  "isfinite a = (case a of Fin _ \<Rightarrow> True | _ \<Rightarrow> False)"

fun to_real :: "npfloat \<Rightarrow> real" where
  "to_real (Fin a) = a"
| "to_real _ = 0"

section \<open>Data frames, fitted models, errors\<close>

text \<open>
  A pandas data frame: the names of its columns and its rows in order. Every row carries
  its index label (\<open>dropna\<close> and \<open>.loc\<close> keep the labels of the rows they keep), the
  entity identifier held in the column \<open>'System'\<close>, and the value of each numeric column
  by name; a missing value is \<open>NaN\<close>. Index labels are unique within a frame, as in
  pandas' default index and its sub-selections. Feature and target names denote numeric
  columns.
\<close>

record row =
  label :: nat
  System :: string
  vals :: "string \<Rightarrow> npfloat"

record frame =
  columns :: "string list"
  rows :: "row list"

text \<open>
  What the code reads of a fitted regression: \<open>params\<close> and \<open>bse\<close> (intercept first);
  for the formula interface also the parameter names (\<open>params.index\<close>); the confidence
  interval \<open>(lower, upper)\<close> of each parameter, which \<open>conf_int()\<close> returns as an array or
  as a data frame (see \<open>print_growth_rates\<close>); and the adjusted R squared.
\<close>

record ols_fit =
  params :: "npfloat list"
  bse :: "npfloat list"

record ols_results = ols_fit +
  names :: "string list"
  conf_int :: "(npfloat \<times> npfloat) list"
  rsquared_adj :: "npfloat"

text \<open>
  The exceptions of the code paths modelled: a missing column (\<open>KeyError\<close>), an index
  past the end of the parameters (\<open>IndexError\<close>), the \<open>ValueError\<close> of
  \<open>get_predictions\<close> with the set of names its message prints, a \<open>ValueError\<close> of
  numpy for arrays whose shapes do not fit, and whatever the regression library raises.
\<close>

datatype error =
    KeyError
  | IndexError
  | ValueError_missing "string set"
  | ValueError_shape
  | LibraryError

definition bind_err :: "error + 'a \<Rightarrow> ('a \<Rightarrow> error + 'b) \<Rightarrow> error + 'b" where
  "bind_err r f = (case r of Inl e \<Rightarrow> Inl e | Inr v \<Rightarrow> f v)"

definition nth_err :: "'a list \<Rightarrow> nat \<Rightarrow> error + 'a" where
  "nth_err xs i = (if i < length xs then Inr (xs ! i) else Inl IndexError)"

section \<open>get\_predictions\<close>

text \<open>
  Modelled from the spec: \<open>model.predict(data)\<close> of the regression library for a model
  fitted through the formula interface, section 4.2: the intercept plus the sum of
  coefficient times feature value, one value per row of the data, in row order.
\<close>

definition predict_row :: "ols_results \<Rightarrow> row \<Rightarrow> npfloat" where
  "predict_row model r =
     (case params model of
        [] \<Rightarrow> Fin 0
      | b0 # bs \<Rightarrow> foldl np_add b0 (map2 (\<lambda>n b. np_mul b (vals r n)) (tl (names model)) bs))"

definition predict_frame :: "ols_results \<Rightarrow> frame \<Rightarrow> npfloat list" where
  "predict_frame model data = map (predict_row model) (rows data)"

definition get_predictions :: "ols_results \<Rightarrow> frame \<Rightarrow> string list \<Rightarrow> error + npfloat list" where
  "get_predictions model data features =
     (let model_features = tl (names model);
          missing_features = set model_features - set (columns data)
      in if missing_features \<noteq> {} then Inl (ValueError_missing missing_features)
         else Inr (predict_frame model data))"

section \<open>print\_growth\_rates\<close>

text \<open>
  The numbers \<open>print_growth_rates\<close> formats, line by line and in the order in which each
  line shows them: the adjusted R squared; the slope with the two bounds printed after
  it; the factor per year; the doubling time. The rounding of the format strings is not
  modelled. \<open>ooms_to_factor_per_year\<close> and \<open>ooms_to_doubling_time_months\<close> come from
  the module \<open>utils\<close> and are parameters.
\<close>

record growth_report =
  adj_r2 :: npfloat
  ooms :: "npfloat \<times> npfloat \<times> npfloat"
  factor :: "npfloat \<times> npfloat \<times> npfloat"
  doubling :: "npfloat \<times> npfloat \<times> npfloat"

text \<open>
  Lines 74 to 77, given the three numbers they read: \<open>params[1]\<close>, \<open>conf_int()[1][0]\<close>
  and \<open>conf_int()[1][1]\<close>. The doubling-time line passes \<open>conf_int()[1][1]\<close> before
  \<open>conf_int()[1][0]\<close>.
\<close>

definition growth_lines ::
  "(npfloat \<Rightarrow> npfloat) \<Rightarrow> (npfloat \<Rightarrow> npfloat) \<Rightarrow> npfloat \<Rightarrow> npfloat \<Rightarrow> npfloat \<Rightarrow> npfloat
     \<Rightarrow> growth_report" where
  "growth_lines ooms_to_factor_per_year ooms_to_doubling_time_months r2 slope ci_1_0 ci_1_1 =
     \<lparr>adj_r2 = r2,
      ooms = (slope, ci_1_0, ci_1_1),
      factor = (ooms_to_factor_per_year slope,
                ooms_to_factor_per_year ci_1_0,
                ooms_to_factor_per_year ci_1_1),
      doubling = (ooms_to_doubling_time_months slope,
                  ooms_to_doubling_time_months ci_1_1,
                  ooms_to_doubling_time_months ci_1_0)\<rparr>"

text \<open>
  What the indexing of lines 75 to 77 reads depends on the data the model was fitted on.
  The field \<open>conf_int\<close> of the record holds the interval \<open>(lower, upper)\<close> of each
  parameter, intercept first.
  \<^item> Results of \<open>sm.OLS\<close> on arrays: \<open>params\<close> and \<open>conf_int()\<close> are arrays,
    \<open>conf_int()[1]\<close> is the row \<open>[lower, upper]\<close> of parameter 1, and
    \<open>conf_int()[1][0]\<close>, \<open>conf_int()[1][1]\<close> are the bounds of the slope.
  \<^item> Results on pandas data, which the formula interface of \<open>fit_ols_regression\<close>
    returns: \<open>params\<close> is a series indexed by the parameter names and \<open>conf_int()\<close> is a
    data frame with the columns \<open>0\<close> (lower bounds) and \<open>1\<close> (upper bounds), one row for
    each parameter. \<open>conf_int()[1]\<close> is the column of the upper bounds. An integer key of
    a series with a string index is read by position in pandas before version 3
    (\<open>positional_fallback\<close>), so that \<open>params[1]\<close> is the slope, \<open>conf_int()[1][0]\<close> is
    the upper bound of the intercept and \<open>conf_int()[1][1]\<close> the upper bound of the
    slope; from version 3 on, \<open>params[1]\<close> raises a \<open>KeyError\<close>.
\<close>

datatype results_wrapper = OnArrays ols_results | OnPandas ols_results

definition print_growth_rates ::
  "bool \<Rightarrow> (npfloat \<Rightarrow> npfloat) \<Rightarrow> (npfloat \<Rightarrow> npfloat) \<Rightarrow> results_wrapper
     \<Rightarrow> error + growth_report" where
  "print_growth_rates positional_fallback ooms_to_factor_per_year ooms_to_doubling_time_months
       model =
     (case model of
        OnArrays m \<Rightarrow>
          bind_err (nth_err (params m) 1) (\<lambda>slope.
          bind_err (nth_err (conf_int m) 1) (\<lambda>row1.
            Inr (growth_lines ooms_to_factor_per_year ooms_to_doubling_time_months
                   (rsquared_adj m) slope (fst row1) (snd row1))))
      | OnPandas m \<Rightarrow>
          if \<not> positional_fallback then Inl KeyError
          else
            bind_err (nth_err (params m) 1) (\<lambda>slope.
            bind_err (nth_err (map snd (conf_int m)) 0) (\<lambda>upper0.
            bind_err (nth_err (map snd (conf_int m)) 1) (\<lambda>upper1.
              Inr (growth_lines ooms_to_factor_per_year ooms_to_doubling_time_months
                     (rsquared_adj m) slope upper0 upper1)))))"

text \<open>
  Modelled from the spec: the two helpers of \<open>utils\<close>, section 4.4: the factor per unit
  time is \<open>10^slope\<close>, the doubling time in months is \<open>log10(2) / slope\<close> converted to
  months. They instantiate the parameters of \<open>print_growth_rates\<close> on concrete models.
\<close>

definition ooms_to_factor_per_year :: "npfloat \<Rightarrow> npfloat" where
  "ooms_to_factor_per_year a =
     (case a of Fin s \<Rightarrow> Fin (10 powr s) | PInf \<Rightarrow> PInf | NInf \<Rightarrow> Fin 0 | NaN \<Rightarrow> NaN)"

definition ooms_to_doubling_time_months :: "npfloat \<Rightarrow> npfloat" where
  "ooms_to_doubling_time_months a = np_mul (np_div (Fin (log 10 2)) a) (Fin 12)"

section \<open>fit\_ols\_regression\<close>

text \<open>
  \<open>data.dropna(subset=...)\<close>: a \<open>KeyError\<close> when a name of the subset is not a column;
  otherwise a new frame with the rows that have no missing value in the subset, labels kept.
\<close>

definition dropna :: "frame \<Rightarrow> string list \<Rightarrow> error + frame" where
  "dropna data cols =
     (if \<not> set cols \<subseteq> set (columns data) then Inl KeyError
      else Inr (data\<lparr>rows := filter (\<lambda>r. list_all (\<lambda>c. vals r c \<noteq> NaN) cols) (rows data)\<rparr>))"

definition column :: "frame \<Rightarrow> string \<Rightarrow> npfloat list" where
  "column data c = map (\<lambda>r. vals r c) (rows data)"

text \<open>\<open>data[c] = values\<close>: the column is overwritten row by row, or added.\<close>

definition set_column :: "frame \<Rightarrow> string \<Rightarrow> npfloat list \<Rightarrow> frame" where
  "set_column data c values =
     \<lparr>columns = (if c \<in> set (columns data) then columns data else columns data @ [c]),
      rows = map2 (\<lambda>r v. r\<lparr>vals := (vals r)(c := v)\<rparr>) (rows data) values\<rparr>"

fun join :: "string \<Rightarrow> string list \<Rightarrow> string" where
  "join sep [] = []"
| "join sep [x] = x"
| "join sep (x # y # ys) = x @ sep @ join sep (y # ys)"

text \<open>
  Data frames are objects that the caller and the function share by reference. The store
  holds the frames by address; the argument \<open>data\<close> is the address of the caller's frame.
  \<open>dropna\<close> returns a new object, which the local name \<open>data\<close> is bound to from then on;
  the assignment to \<open>data[target]\<close> writes into that object. The fit of the formula
  interface, \<open>smf.ols(formula, data).fit()\<close>, is a parameter. The function returns the
  outcome together with the store it leaves behind.
\<close>

type_synonym store = "frame list"

definition fit_ols_regression ::
  "(string \<Rightarrow> frame \<Rightarrow> error + ols_results) \<Rightarrow> store \<Rightarrow> nat \<Rightarrow> string list \<Rightarrow> string \<Rightarrow> bool
     \<Rightarrow> (error + ols_results) \<times> store" where
  "fit_ols_regression smf_ols st data features target logy =
     (case dropna (st ! data) (features @ [target]) of
        Inl e \<Rightarrow> (Inl e, st)
      | Inr dropped \<Rightarrow>
          let local = length st;
              st1 = st @ [dropped];
              st2 = (if logy
                     then st1[local := set_column (st1 ! local) target
                                         (map np_log10 (column (st1 ! local) target))]
                     else st1);
              formula = target @ '' ~ '' @ join '' + '' features
          in (smf_ols formula (st2 ! local), st2))"

section \<open>regression\_slope\_t\_test\<close>

definition to_numpy :: "frame \<Rightarrow> string list \<Rightarrow> npfloat list list" where
  "to_numpy data features = map (\<lambda>r. map (vals r) features) (rows data)"

text \<open>
  Modelled from the spec: \<open>sm.add_constant\<close> of the regression library, section 4.5
  step 2: an explicit intercept term is prepended to the design matrix.
\<close>

definition add_constant :: "npfloat list list \<Rightarrow> npfloat list list" where
  "add_constant X = map (\<lambda>r. Fin 1 # r) X"

text \<open>
  \<open>da['System'].isin(db['System'])\<close> at an index label. The operator \<open>&\<close> aligns its two
  boolean series on the union of their index labels and takes a label that one of them
  lacks as \<open>False\<close>; so the conjunction holds at a label when both frames have a row
  with that label, the first frame's identifier there occurs in the second frame and the
  second frame's identifier there occurs in the first.
\<close>

definition isin :: "frame \<Rightarrow> frame \<Rightarrow> nat \<Rightarrow> bool" where
  "isin da db l =
     (case find (\<lambda>r. label r = l) (rows da) of
        None \<Rightarrow> False
      | Some r \<Rightarrow> System r \<in> set (map System (rows db)))"

definition common_systems :: "frame \<Rightarrow> frame \<Rightarrow> nat \<Rightarrow> bool" where
  "common_systems data1 data2 l = (isin data1 data2 l \<and> isin data2 data1 l)"

definition any_common :: "frame \<Rightarrow> frame \<Rightarrow> bool" where
  "any_common data1 data2 =
     list_ex (common_systems data1 data2) (map label (rows data1) @ map label (rows data2))"

text \<open>\<open>data.loc[mask]\<close>: the rows of the frame whose label the mask holds at.\<close>

definition loc :: "frame \<Rightarrow> (nat \<Rightarrow> bool) \<Rightarrow> frame" where
  "loc data keep = data\<lparr>rows := filter (\<lambda>r. keep (label r)) (rows data)\<rparr>"

text \<open>
  Lines 81 to 104: the arrays the function builds before it fits anything. \<open>common\<close> is
  \<open>(X12, y1_common, y2_common)\<close>, bound only when \<open>any(common_systems)\<close>.
\<close>

record arrays =
  X1 :: "npfloat list list"
  y1 :: "npfloat list"
  X2 :: "npfloat list list"
  y2 :: "npfloat list"
  common :: "(npfloat list list \<times> npfloat list \<times> npfloat list) option"

definition slope_test_arrays ::
  "frame \<Rightarrow> frame \<Rightarrow> string list \<Rightarrow> string \<Rightarrow> bool \<Rightarrow> error + arrays" where
  "slope_test_arrays data1 data2 features target logy =
     bind_err (dropna data1 (features @ [target])) (\<lambda>d1.
     bind_err (dropna data2 (features @ [target])) (\<lambda>d2.
       if ''System'' \<notin> set (columns d1) \<or> ''System'' \<notin> set (columns d2) then Inl KeyError
       else
         bind_err
           (if any_common d1 d2
            then bind_err (dropna (loc d1 (common_systems d1 d2)) (features @ [target])) (\<lambda>data12.
                   Inr (Some (add_constant (to_numpy data12 features),
                              column (loc d1 (common_systems d1 d2)) target,
                              column (loc d2 (common_systems d1 d2)) target)))
            else Inr None) (\<lambda>c.
         Inr \<lparr>X1 = add_constant (to_numpy d1 features),
              y1 = (if logy then map np_log10 (column d1 target) else column d1 target),
              X2 = add_constant (to_numpy d2 features),
              y2 = (if logy then map np_log10 (column d2 target) else column d2 target),
              common = (if logy
                        then map_option (\<lambda>(X12, y1c, y2c). (X12, map np_log10 y1c, map np_log10 y2c)) c
                        else c)\<rparr>)))"

text \<open>
  \<open>model.predict(exog=X)\<close> of a model fitted on arrays is the product of the design
  matrix with the parameters; numpy raises a \<open>ValueError\<close> when the shapes do not fit, as
  it does for the difference of two arrays of different lengths.
\<close>

definition predict :: "ols_fit \<Rightarrow> npfloat list list \<Rightarrow> error + npfloat list" where
  "predict model exog =
     (if list_all (\<lambda>r. length r = length (params model)) exog
      then Inr (map (\<lambda>r. np_sum (map2 np_mul r (params model))) exog)
      else Inl ValueError_shape)"

definition arr_sub :: "npfloat list \<Rightarrow> npfloat list \<Rightarrow> error + npfloat list" where
  "arr_sub xs ys = (if length xs = length ys then Inr (map2 np_sub xs ys) else Inl ValueError_shape)"

text \<open>
  Modelled from the spec: \<open>np.corrcoef(a, b)[0, 1]\<close>, section 4.5 step 4c: the Pearson
  correlation coefficient of the two sequences. It is \<open>nan\<close> when a value is not finite
  or when one of the sequences has no variance (\<open>0 / 0\<close>).
\<close>

definition corrcoef :: "npfloat list \<Rightarrow> npfloat list \<Rightarrow> npfloat" where
  "corrcoef a b =
     (if \<not> (list_all isfinite a \<and> list_all isfinite b) then NaN
      else
        let xs = map to_real a; ys = map to_real b;
            mx = sum_list xs / real (length xs); my = sum_list ys / real (length ys);
            cxy = sum_list (map2 (\<lambda>x y. (x - mx) * (y - my)) xs ys);
            vx = sum_list (map (\<lambda>x. (x - mx)\<^sup>2) xs);
            vy = sum_list (map (\<lambda>y. (y - my)\<^sup>2) ys)
        in if vx = 0 \<or> vy = 0 then NaN else Fin (cxy / sqrt (vx * vy)))"

text \<open>
  The values the function prints (and the degrees of freedom it computes), named as its
  local variables.
\<close>

record test_result =
  b1 :: npfloat
  SE1 :: npfloat
  b2 :: npfloat
  SE2 :: npfloat
  rho :: npfloat
  t_stat :: npfloat
  df :: int
  p_value :: npfloat

text \<open>The term under the square root of line 129.\<close>

definition adjusted_variance :: "npfloat \<Rightarrow> npfloat \<Rightarrow> npfloat \<Rightarrow> npfloat" where
  "adjusted_variance se1 se2 r =
     np_sub (np_add (np_square se1) (np_square se2)) (np_mul (np_mul (np_mul (Fin 2) se1) se2) r)"

text \<open>
  Lines 107 to 141. The solver \<open>sm.OLS(y, X).fit()\<close> and the cumulative distribution
  function \<open>stats.t.cdf\<close> are parameters: \<open>fit\<close> takes the target and the design matrix
  and returns the fitted model or raises, \<open>t_cdf\<close> takes a value and the degrees of
  freedom.
\<close>

definition slope_test_statistics ::
  "(npfloat list \<Rightarrow> npfloat list list \<Rightarrow> error + ols_fit) \<Rightarrow> (npfloat \<Rightarrow> int \<Rightarrow> npfloat) \<Rightarrow> bool
     \<Rightarrow> arrays \<Rightarrow> error + test_result" where
  "slope_test_statistics fit t_cdf adj_corr a =
     bind_err (fit (y1 a) (X1 a)) (\<lambda>model1.
     bind_err (fit (y2 a) (X2 a)) (\<lambda>model2.
     bind_err (nth_err (params model1) 1) (\<lambda>slope1.
     bind_err (nth_err (bse model1) 1) (\<lambda>se1.
     bind_err (nth_err (params model2) 1) (\<lambda>slope2.
     bind_err (nth_err (bse model2) 1) (\<lambda>se2.
     bind_err
       (case common a of
          None \<Rightarrow> Inr None
        | Some (X12, y1_common, y2_common) \<Rightarrow>
            bind_err (predict model1 X12) (\<lambda>p1.
            bind_err (arr_sub y1_common p1) (\<lambda>residuals_model1.
            bind_err (predict model2 X12) (\<lambda>p2.
            bind_err (arr_sub y2_common p2) (\<lambda>residuals_model2.
              Inr (Some (residuals_model1, residuals_model2))))))) (\<lambda>residuals.
       let r = (case residuals of
                  Some (residuals_model1, residuals_model2) \<Rightarrow>
                    if adj_corr then corrcoef residuals_model1 residuals_model2 else Fin 0
                | None \<Rightarrow> Fin 0);
           t = np_div (np_sub slope1 slope2) (np_sqrt (adjusted_variance se1 se2 r));
           d = (int (length (X1 a)) - 2) + (int (length (X2 a)) - 2)
       in Inr \<lparr>b1 = slope1, SE1 = se1, b2 = slope2, SE2 = se2, rho = r, t_stat = t, df = d,
               p_value = np_mul (Fin 2) (np_sub (Fin 1) (t_cdf (np_abs t) d))\<rparr>)))))))"

definition regression_slope_t_test ::
  "(npfloat list \<Rightarrow> npfloat list list \<Rightarrow> error + ols_fit) \<Rightarrow> (npfloat \<Rightarrow> int \<Rightarrow> npfloat)
     \<Rightarrow> frame \<Rightarrow> frame \<Rightarrow> string list \<Rightarrow> string \<Rightarrow> bool \<Rightarrow> bool \<Rightarrow> error + test_result" where
  "regression_slope_t_test fit t_cdf data1 data2 features target logy adj_corr =
     bind_err (slope_test_arrays data1 data2 features target logy)
       (slope_test_statistics fit t_cdf adj_corr)"

text \<open>
  The design matrix \<open>X12\<close> as lines 81 to 95 compute it from the first data set at the
  labels of the common subset (empty when a column is missing).
\<close>

definition common_design :: "frame \<Rightarrow> frame \<Rightarrow> string list \<Rightarrow> string \<Rightarrow> npfloat list list" where
  "common_design data1 data2 features target =
     (case dropna data1 (features @ [target]) of
        Inl e \<Rightarrow> []
      | Inr d1 \<Rightarrow>
          (case dropna data2 (features @ [target]) of
             Inl e \<Rightarrow> []
           | Inr d2 \<Rightarrow>
               (case dropna (loc d1 (common_systems d1 d2)) (features @ [target]) of
                  Inl e \<Rightarrow> []
                | Inr data12 \<Rightarrow> add_constant (to_numpy data12 features))))"

section \<open>A solver, a distribution function and data to run the code on\<close>

text \<open>
  The theorems below hold for every solver and every distribution function. To run the
  comparison on concrete data, the parameters are instantiated with the ordinary least
  squares solution for one feature with an intercept, in closed form: with \<open>xbar\<close> the mean
  of the feature and \<open>sxx\<close> its sum of squared deviations, the estimates are the products
  of the pseudo-inverse of the design matrix with the target, the scale is the residual
  sum of squares over \<open>n - 2\<close>, and the standard errors are the square roots of the scale
  times the diagonal of the inverse of \<open>X\<^sup>T X\<close>. As in the library, a design matrix with a
  value that is not finite is rejected, and a target with such a value is not. Designs of
  another shape, or with a feature that does not vary, are outside the closed form and
  reported as an error of the library.
\<close>

definition ols_simple :: "npfloat list \<Rightarrow> npfloat list list \<Rightarrow> error + ols_fit" where
  "ols_simple y X =
     (if \<not> list_all (\<lambda>r. length r = 2 \<and> hd r = Fin 1 \<and> list_all isfinite r) X \<or> length y \<noteq> length X
      then Inl LibraryError
      else
        let xs = map (\<lambda>r. to_real (r ! 1)) X;
            n = real (length xs);
            xbar = sum_list xs / n;
            sxx = sum_list (map (\<lambda>x. (x - xbar)\<^sup>2) xs)
        in if sxx = 0 then Inl LibraryError
           else
             let slope = np_sum (map2 (\<lambda>x v. np_mul (Fin ((x - xbar) / sxx)) v) xs y);
                 icept = np_sum (map2 (\<lambda>x v. np_mul (Fin (1 / n - xbar * (x - xbar) / sxx)) v) xs y);
                 resid = map2 (\<lambda>x v. np_sub v (np_add icept (np_mul slope (Fin x)))) xs y;
                 scale = np_div (np_sum (map np_square resid)) (Fin (n - 2))
             in Inr \<lparr>params = [icept, slope],
                     bse = [np_sqrt (np_mul scale (Fin (1 / n + xbar\<^sup>2 / sxx))),
                            np_sqrt (np_mul scale (Fin (1 / sxx)))]\<rparr>)"

text \<open>
  The cumulative distribution function of Student's t with two degrees of freedom, in
  closed form; it instantiates \<open>t_cdf\<close> on data sets of three rows each, where the
  degrees of freedom are two.
\<close>

definition t_cdf_df2 :: "npfloat \<Rightarrow> int \<Rightarrow> npfloat" where
  "t_cdf_df2 t d =
     (case t of
        Fin x \<Rightarrow> Fin (1 / 2 + x / (2 * sqrt (2 + x\<^sup>2)))
      | PInf \<Rightarrow> Fin 1
      | NInf \<Rightarrow> Fin 0
      | NaN \<Rightarrow> NaN)"

text \<open>Data sets with the columns \<open>System\<close>, \<open>x\<close> and \<open>y\<close>.\<close>

definition obs :: "nat \<Rightarrow> string \<Rightarrow> npfloat \<Rightarrow> npfloat \<Rightarrow> row" where
  "obs l s x y =
     \<lparr>label = l, System = s,
      vals = (\<lambda>c. if c = ''x'' then x else if c = ''y'' then y else NaN)\<rparr>"

definition data_a :: frame where
  "data_a = \<lparr>columns = [''System'', ''x'', ''y''],
             rows = [obs 0 ''a'' (Fin 0) (Fin 1), obs 1 ''b'' (Fin 1) (Fin (- 2)),
                     obs 2 ''c'' (Fin 2) (Fin 1)]\<rparr>"

definition data_b :: frame where
  "data_b = \<lparr>columns = [''System'', ''x'', ''y''],
             rows = [obs 0 ''a'' (Fin 0) (Fin 2), obs 1 ''b'' (Fin 3) (Fin 4),
                     obs 2 ''d'' (Fin 1) (Fin (- 2))]\<rparr>"

definition data_c :: frame where
  "data_c = \<lparr>columns = [''System'', ''x'', ''y''],
             rows = [obs 0 ''b'' (Fin 0) (Fin 2), obs 1 ''e'' (Fin 3) (Fin 4),
                     obs 2 ''f'' (Fin 1) (Fin (- 2))]\<rparr>"


definition data_e :: frame where
  "data_e = \<lparr>columns = [''System'', ''x'', ''y''],
             rows = [obs 0 ''e'' (Fin 0) (Fin 2), obs 1 ''f'' (Fin 3) (Fin 4),
                     obs 2 ''g'' (Fin 1) (Fin (- 2))]\<rparr>"

definition data_x :: frame where
  "data_x = \<lparr>columns = [''System'', ''x''],
             rows = [obs 0 ''a'' (Fin 1) NaN, obs 1 ''b'' (Fin 0) NaN]\<rparr>"

definition demo_model :: ols_results where
  "demo_model =
     \<lparr>params = [Fin 1, Fin 2, Fin 3], bse = [Fin 1, Fin 1, Fin 1],
      names = [''Intercept'', ''x'', ''y''],
      conf_int = [(Fin 0, Fin 2), (Fin 1, Fin 3), (Fin 2, Fin 4)],
      rsquared_adj = Fin (1 / 2)\<rparr>"

text \<open>
  A model as the formula interface returns it for one feature: the intercept with the
  interval \<open>[-7, -5]\<close>, the slope 2 with the interval \<open>[1, 3]\<close>.
\<close>

definition formula_model :: ols_results where
  "formula_model =
     \<lparr>params = [Fin (- 6), Fin 2], bse = [Fin (1 / 2), Fin (1 / 2)],
      names = [''Intercept'', ''x''],
      conf_int = [(Fin (- 7), Fin (- 5)), (Fin 1, Fin 3)],
      rsquared_adj = Fin (1 / 2)\<rparr>"

section \<open>Basic lemmas\<close>

lemma bind_err_simps [simp]:
  "bind_err (Inl e) f = Inl e" "bind_err (Inr v) f = f v"
  by (simp_all add: bind_err_def)

lemma bind_err_Inr_iff:
  "bind_err x f = Inr r \<longleftrightarrow> (\<exists>v. x = Inr v \<and> f v = Inr r)"
  by (cases x) simp_all

subsection \<open>Arithmetic of the extended numbers\<close>


lemma np_mul_commute: "np_mul a b = np_mul b a"
  by (cases a; cases b) (simp_all add: mult.commute)










subsection \<open>The common subset and the arrays\<close>

lemma common_systems_commute: "common_systems d2 d1 = common_systems d1 d2"
  by (rule ext) (auto simp: common_systems_def)


lemma dropna_columns: "dropna d cs = Inr d' \<Longrightarrow> columns d' = columns d"
  by (auto simp: dropna_def split: if_splits)

lemma dropna_rows: "dropna d cs = Inr d' \<Longrightarrow> set (rows d') \<subseteq> set (rows d)"
  by (auto simp: dropna_def split: if_splits)

lemma dropna_loc:
  "dropna d cs = Inr d' \<Longrightarrow> dropna (loc d' keep) cs = Inr (loc d' keep)"
proof -
  have "filter (\<lambda>x. P x \<and> Q x \<and> P x) xs = filter (\<lambda>x. P x \<and> Q x) xs"
    for P Q :: "row \<Rightarrow> bool" and xs
    by (rule filter_cong) auto
  then show "dropna d cs = Inr d' \<Longrightarrow> dropna (loc d' keep) cs = Inr (loc d' keep)"
    by (auto simp: dropna_def loc_def list_all_iff split: if_splits)
qed

lemma isin_System:
  "isin da db l \<Longrightarrow> \<exists>r \<in> set (rows da). System r \<in> System ` set (rows db)"
  by (auto simp: isin_def find_Some_iff split: option.splits)

lemma any_common_shared:
  "any_common d1 d2 \<Longrightarrow> System ` set (rows d1) \<inter> System ` set (rows d2) \<noteq> {}"
  unfolding any_common_def list_ex_iff common_systems_def
  using isin_System by blast

lemma stat_No_common:
  "common a = None \<Longrightarrow>
   slope_test_statistics fit t_cdf adj a = slope_test_statistics fit t_cdf adj' a"
  by (simp add: slope_test_statistics_def)

lemma stat_No_common_rho:
  "common a = None \<Longrightarrow> slope_test_statistics fit t_cdf adj a = Inr r \<Longrightarrow> rho r = Fin 0"
  by (auto simp: slope_test_statistics_def bind_err_Inr_iff Let_def)

lemma arrays_common:
  "slope_test_arrays data1 data2 features target logy = Inr a \<Longrightarrow>
   \<exists>d1 d2. dropna data1 (features @ [target]) = Inr d1 \<and>
           dropna data2 (features @ [target]) = Inr d2 \<and>
           ''System'' \<in> set (columns d1) \<and> ''System'' \<in> set (columns d2) \<and>
           X1 a = add_constant (to_numpy d1 features) \<and>
           y1 a = (if logy then map np_log10 (column d1 target) else column d1 target) \<and>
           X2 a = add_constant (to_numpy d2 features) \<and>
           y2 a = (if logy then map np_log10 (column d2 target) else column d2 target) \<and>
           (common a \<noteq> None) = any_common d1 d2 \<and>
           (any_common d1 d2 \<longrightarrow>
              common a = Some (common_design data1 data2 features target,
                (if logy then map np_log10 (column (loc d1 (common_systems d1 d2)) target)
                 else column (loc d1 (common_systems d1 d2)) target),
                (if logy then map np_log10 (column (loc d2 (common_systems d1 d2)) target)
                 else column (loc d2 (common_systems d1 d2)) target)))"
  by (auto simp: slope_test_arrays_def bind_err_Inr_iff common_design_def dropna_loc
      split: if_splits)

lemma arrays_eq:
  assumes "dropna data1 (features @ [target]) = Inr d1"
    and "dropna data2 (features @ [target]) = Inr d2"
    and "''System'' \<in> set (columns d1)" and "''System'' \<in> set (columns d2)"
  shows "slope_test_arrays data1 data2 features target logy =
     Inr \<lparr>X1 = add_constant (to_numpy d1 features),
          y1 = (if logy then map np_log10 (column d1 target) else column d1 target),
          X2 = add_constant (to_numpy d2 features),
          y2 = (if logy then map np_log10 (column d2 target) else column d2 target),
          common =
            (if any_common d1 d2
             then Some (common_design data1 data2 features target,
                (if logy then map np_log10 (column (loc d1 (common_systems d1 d2)) target)
                 else column (loc d1 (common_systems d1 d2)) target),
                (if logy then map np_log10 (column (loc d2 (common_systems d1 d2)) target)
                 else column (loc d2 (common_systems d1 d2)) target))
             else None)\<rparr>"
  using assms by (simp add: slope_test_arrays_def common_design_def dropna_loc)

lemma stat_unfold:
  assumes "slope_test_statistics fit t_cdf adj a = Inr r"
  shows "\<exists>m1 m2. fit (y1 a) (X1 a) = Inr m1 \<and> fit (y2 a) (X2 a) = Inr m2 \<and>
           1 < length (params m1) \<and> 1 < length (bse m1) \<and>
           1 < length (params m2) \<and> 1 < length (bse m2) \<and>
           b1 r = params m1 ! 1 \<and> SE1 r = bse m1 ! 1 \<and>
           b2 r = params m2 ! 1 \<and> SE2 r = bse m2 ! 1 \<and>
           df r = (int (length (X1 a)) - 2) + (int (length (X2 a)) - 2) \<and>
           t_stat r = np_div (np_sub (b1 r) (b2 r))
                        (np_sqrt (adjusted_variance (SE1 r) (SE2 r) (rho r))) \<and>
           p_value r = np_mul (Fin 2) (np_sub (Fin 1) (t_cdf (np_abs (t_stat r)) (df r))) \<and>
           (case common a of
              None \<Rightarrow> rho r = Fin 0
            | Some (X12, y1c, y2c) \<Rightarrow>
                (\<exists>p1 p2. predict m1 X12 = Inr p1 \<and> predict m2 X12 = Inr p2 \<and>
                   length y1c = length p1 \<and> length y2c = length p2 \<and>
                   rho r = (if adj then corrcoef (map2 np_sub y1c p1) (map2 np_sub y2c p2)
                            else Fin 0)))"
  using assms
  by (cases "common a")
     (auto simp: slope_test_statistics_def bind_err_Inr_iff Let_def nth_err_def arr_sub_def
       split: if_splits)

lemma stat_fold:
  assumes "fit (y1 a) (X1 a) = Inr m1" and "fit (y2 a) (X2 a) = Inr m2"
    and "1 < length (params m1)" and "1 < length (bse m1)"
    and "1 < length (params m2)" and "1 < length (bse m2)"
    and "case common a of None \<Rightarrow> r = Fin 0
         | Some (X12, y1c, y2c) \<Rightarrow>
             (\<exists>p1 p2. predict m1 X12 = Inr p1 \<and> predict m2 X12 = Inr p2 \<and>
                length y1c = length p1 \<and> length y2c = length p2 \<and>
                r = (if adj then corrcoef (map2 np_sub y1c p1) (map2 np_sub y2c p2) else Fin 0))"
  shows "slope_test_statistics fit t_cdf adj a =
     Inr \<lparr>b1 = params m1 ! 1, SE1 = bse m1 ! 1, b2 = params m2 ! 1, SE2 = bse m2 ! 1, rho = r,
          t_stat = np_div (np_sub (params m1 ! 1) (params m2 ! 1))
                     (np_sqrt (adjusted_variance (bse m1 ! 1) (bse m2 ! 1) r)),
          df = (int (length (X1 a)) - 2) + (int (length (X2 a)) - 2),
          p_value = np_mul (Fin 2) (np_sub (Fin 1)
             (t_cdf (np_abs (np_div (np_sub (params m1 ! 1) (params m2 ! 1))
                     (np_sqrt (adjusted_variance (bse m1 ! 1) (bse m2 ! 1) r))))
                ((int (length (X1 a)) - 2) + (int (length (X2 a)) - 2))))\<rparr>"
  using assms
  by (cases "common a")
     (auto simp: slope_test_statistics_def Let_def nth_err_def arr_sub_def)


section \<open>The comparison run on the example data\<close>

lemma column_set_column:
  assumes "length vs = length (rows d)"
  shows "column (set_column d c vs) c = vs"
proof -
  have "map (\<lambda>r. vals r c) (map2 (\<lambda>r v. r\<lparr>vals := (vals r)(c := v)\<rparr>) rs vs) = vs"
    if "length rs = length vs" for rs :: "row list"
    using that by (induction rs vs rule: list_induct2) simp_all
  with assms show ?thesis
    by (simp add: column_def set_column_def)
qed

lemma dropna_ok:
  "set cs \<subseteq> set (columns d) \<Longrightarrow> \<exists>d'. dropna d cs = Inr d' \<and> columns d' = columns d"
  by (simp add: dropna_def)

lemma sqrt_9_4: "sqrt (9 / 4) = 3 / 2"
  by (rule real_sqrt_unique) (simp_all add: power2_eq_square)


lemma adjusted_variance_sqrt3:
  "adjusted_variance (Fin (sqrt 3)) (Fin (sqrt 3)) (Fin c) = Fin (6 - 6 * c)"
proof -
  have "2 * sqrt 3 * sqrt 3 * c = 6 * c"
    by (simp add: mult.assoc [of 2 "sqrt 3" "sqrt 3"])
  then show ?thesis
    by (simp add: adjusted_variance_def np_square_def np_sub_def)
qed

lemma adjusted_variance_sqrt3_0:
  "adjusted_variance (Fin (sqrt 3)) (Fin (sqrt 3)) (Fin 0) = Fin 6"
  using adjusted_variance_sqrt3 [of 0] by simp

lemma adjusted_variance_NaN: "adjusted_variance NaN NaN r = NaN"
  by (simp add: adjusted_variance_def np_square_def np_sub_def)

lemma ols_a: "ols_simple [Fin 1, Fin (- 2), Fin 1] [[Fin 1, Fin 0], [Fin 1, Fin 1], [Fin 1, Fin 2]] =
   Inr \<lparr>params = [Fin 0, Fin 0], bse = [Fin (sqrt 5), Fin (sqrt 3)]\<rparr>"
  by (simp add: ols_simple_def isfinite_def Let_def np_sum_def np_sub_def np_square_def power2_eq_square)

lemma ols_b: "ols_simple [Fin 2, Fin 4, Fin (- 2)] [[Fin 1, Fin 0], [Fin 1, Fin 3], [Fin 1, Fin 1]] =
   Inr \<lparr>params = [Fin 0, Fin 1], bse = [Fin (sqrt 10), Fin (sqrt 3)]\<rparr>"
  by (simp add: ols_simple_def isfinite_def Let_def np_sum_def np_sub_def np_square_def power2_eq_square)


lemma ols_nan_a: "ols_simple [Fin 0, NaN, Fin 0] [[Fin 1, Fin 0], [Fin 1, Fin 1], [Fin 1, Fin 2]] =
   Inr \<lparr>params = [NaN, NaN], bse = [NaN, NaN]\<rparr>"
  by (simp add: ols_simple_def isfinite_def Let_def np_sum_def np_sub_def np_square_def power2_eq_square)

lemma ols_nan_b:
  "ols_simple [Fin (log 10 2), Fin (log 10 4), NaN] [[Fin 1, Fin 0], [Fin 1, Fin 3], [Fin 1, Fin 1]] =
   Inr \<lparr>params = [NaN, NaN], bse = [NaN, NaN]\<rparr>"
  by (simp add: ols_simple_def isfinite_def Let_def np_sum_def np_sub_def np_square_def power2_eq_square)

text \<open>
  The three fits satisfy the normal equations: the residuals of each sum to zero and are
  orthogonal to the feature.
\<close>

lemma fits_normal_equations:
  "sum_list (map2 (\<lambda>x y. y - (0 + 0 * x)) [0, 1, 2] [1, - 2, 1 :: real]) = 0"
  "sum_list (map2 (\<lambda>x y. x * (y - (0 + 0 * x))) [0, 1, 2] [1, - 2, 1 :: real]) = 0"
  "sum_list (map2 (\<lambda>x y. y - (0 + 1 * x)) [0, 3, 1] [2, 4, - 2 :: real]) = 0"
  "sum_list (map2 (\<lambda>x y. x * (y - (0 + 1 * x))) [0, 3, 1] [2, 4, - 2 :: real]) = 0"
  "sum_list (map2 (\<lambda>x y. y - (0 + 1 * x)) [0, 1, 3] [- 2, 4, 2 :: real]) = 0"
  "sum_list (map2 (\<lambda>x y. x * (y - (0 + 1 * x))) [0, 1, 3] [- 2, 4, 2 :: real]) = 0"
  by simp_all


lemma corr_ba: "corrcoef [Fin 2, Fin 1] [Fin 1, Fin (- 2)] = Fin 1"
  by (simp add: corrcoef_def isfinite_def Let_def power2_eq_square sqrt_9_4)


lemma dropna_a: "dropna data_a [''x'', ''y''] = Inr data_a"
  by (simp add: dropna_def data_a_def obs_def)

lemma dropna_b: "dropna data_b [''x'', ''y''] = Inr data_b"
  by (simp add: dropna_def data_b_def obs_def)

lemma dropna_c: "dropna data_c [''x'', ''y''] = Inr data_c"
  by (simp add: dropna_def data_c_def obs_def)


lemma common_ab: "common_systems data_a data_b = (\<lambda>l. l = 0 \<or> l = 1)"
  by (rule ext) (auto simp add: common_systems_def isin_def data_a_def data_b_def obs_def)

lemma common_ac: "common_systems data_a data_c = (\<lambda>l. False)"
  by (rule ext) (auto simp add: common_systems_def isin_def data_a_def data_c_def obs_def)



lemma arrays_ba:
  "slope_test_arrays data_b data_a [''x''] ''y'' False =
     Inr \<lparr>X1 = [[Fin 1, Fin 0], [Fin 1, Fin 3], [Fin 1, Fin 1]], y1 = [Fin 2, Fin 4, Fin (- 2)],
          X2 = [[Fin 1, Fin 0], [Fin 1, Fin 1], [Fin 1, Fin 2]], y2 = [Fin 1, Fin (- 2), Fin 1],
          common = Some ([[Fin 1, Fin 0], [Fin 1, Fin 3]], [Fin 2, Fin 4], [Fin 1, Fin (- 2)])\<rparr>"
  apply (simp add: slope_test_arrays_def dropna_a dropna_b)
  apply (simp add: any_common_def common_systems_commute [of data_b data_a] common_ab loc_def dropna_def)
  apply (simp add: data_a_def data_b_def obs_def add_constant_def to_numpy_def column_def)
  done

lemma arrays_ac:
  "slope_test_arrays data_a data_c [''x''] ''y'' False =
     Inr \<lparr>X1 = [[Fin 1, Fin 0], [Fin 1, Fin 1], [Fin 1, Fin 2]], y1 = [Fin 1, Fin (- 2), Fin 1],
          X2 = [[Fin 1, Fin 0], [Fin 1, Fin 3], [Fin 1, Fin 1]], y2 = [Fin 2, Fin 4, Fin (- 2)],
          common = None\<rparr>"
  apply (simp add: slope_test_arrays_def dropna_a dropna_c)
  apply (simp add: any_common_def common_ac loc_def dropna_def)
  apply (simp add: data_a_def data_c_def obs_def add_constant_def to_numpy_def column_def)
  done



lemma arrays_log:
  "slope_test_arrays data_a data_b [''x''] ''y'' True =
     Inr \<lparr>X1 = [[Fin 1, Fin 0], [Fin 1, Fin 1], [Fin 1, Fin 2]], y1 = [Fin 0, NaN, Fin 0],
          X2 = [[Fin 1, Fin 0], [Fin 1, Fin 3], [Fin 1, Fin 1]],
          y2 = [Fin (log 10 2), Fin (log 10 4), NaN],
          common = Some ([[Fin 1, Fin 0], [Fin 1, Fin 1]], [Fin 0, NaN],
                         [Fin (log 10 2), Fin (log 10 4)])\<rparr>"
  apply (simp add: slope_test_arrays_def dropna_a dropna_b)
  apply (simp add: any_common_def common_ab loc_def dropna_def)
  apply (simp add: data_a_def data_b_def obs_def add_constant_def to_numpy_def column_def)
  done


lemma run_ba:
  "regression_slope_t_test ols_simple t_cdf_df2 data_b data_a [''x''] ''y'' False True =
     Inr \<lparr>b1 = Fin 1, SE1 = Fin (sqrt 3), b2 = Fin 0, SE2 = Fin (sqrt 3), rho = Fin 1,
          t_stat = PInf, df = 2, p_value = Fin 0\<rparr>"
  unfolding regression_slope_t_test_def arrays_ba bind_err_simps
  apply (subst stat_fold [where ?m2.0 = "\<lparr>params = [Fin 0, Fin 0], bse = [Fin (sqrt 5), Fin (sqrt 3)]\<rparr>"
       and ?m1.0 = "\<lparr>params = [Fin 0, Fin 1], bse = [Fin (sqrt 10), Fin (sqrt 3)]\<rparr>"
       and r = "Fin 1"])
         apply (simp_all add: ols_a ols_b predict_def np_sum_def np_sub_def corr_ba
      adjusted_variance_sqrt3 t_cdf_df2_def)
  done

lemma run_ac:
  "regression_slope_t_test ols_simple t_cdf_df2 data_a data_c [''x''] ''y'' False True =
     Inr \<lparr>b1 = Fin 0, SE1 = Fin (sqrt 3), b2 = Fin 1, SE2 = Fin (sqrt 3), rho = Fin 0,
          t_stat = Fin (- (1 / sqrt 6)), df = 2,
          p_value = np_mul (Fin 2) (np_sub (Fin 1) (t_cdf_df2 (Fin (1 / sqrt 6)) 2))\<rparr>"
  unfolding regression_slope_t_test_def arrays_ac bind_err_simps
  apply (subst stat_fold [where ?m1.0 = "\<lparr>params = [Fin 0, Fin 0], bse = [Fin (sqrt 5), Fin (sqrt 3)]\<rparr>"
       and ?m2.0 = "\<lparr>params = [Fin 0, Fin 1], bse = [Fin (sqrt 10), Fin (sqrt 3)]\<rparr>"
       and r = "Fin 0"])
         apply (simp_all add: ols_a ols_b np_sub_def adjusted_variance_sqrt3_0)
  done


lemma run_log:
  "regression_slope_t_test ols_simple t_cdf_df2 data_a data_b [''x''] ''y'' True True =
     Inr \<lparr>b1 = NaN, SE1 = NaN, b2 = NaN, SE2 = NaN, rho = NaN, t_stat = NaN, df = 2,
          p_value = NaN\<rparr>"
  unfolding regression_slope_t_test_def arrays_log bind_err_simps
  apply (subst stat_fold [where ?m1.0 = "\<lparr>params = [NaN, NaN], bse = [NaN, NaN]\<rparr>"
       and ?m2.0 = "\<lparr>params = [NaN, NaN], bse = [NaN, NaN]\<rparr>"
       and r = "NaN"])
         apply (simp_all add: ols_nan_a ols_nan_b predict_def np_sum_def np_sub_def corrcoef_def
      isfinite_def adjusted_variance_NaN t_cdf_df2_def)
  done

section \<open>Properties of get\_predictions\<close>

text \<open>
  C10. The result of \<open>get_predictions\<close> does not depend on its \<open>features\<close> argument: any
  two values of that argument give the same predictions, or the same error, since the
  required features are read from the names of the model's parameters after the first.
\<close>

theorem get_predictions_ignores_features:
  "get_predictions model data features1 = get_predictions model data features2"
  by (simp add: get_predictions_def)

text \<open>
  C7. When a feature the model was fitted with is not a column of the data,
  \<open>get_predictions\<close> raises the error that names exactly the missing features and returns
  no prediction; when none is missing it returns one prediction per row of the data, in
  row order. The exception the code raises is a \<open>ValueError\<close> whose message prints the set.
\<close>

theorem get_predictions_missing_features:
  "({f \<in> set (tl (names model)). f \<notin> set (columns data)} \<noteq> {} \<longrightarrow>
      get_predictions model data features =
        Inl (ValueError_missing {f \<in> set (tl (names model)). f \<notin> set (columns data)})) \<and>
   ({f \<in> set (tl (names model)). f \<notin> set (columns data)} = {} \<longrightarrow>
      (\<exists>ps. get_predictions model data features = Inr ps \<and>
            length ps = length (rows data) \<and>
            (\<forall>i < length (rows data). ps ! i = predict_row model (rows data ! i))))"
proof -
  have eq: "set (tl (names model)) - set (columns data) =
      {f \<in> set (tl (names model)). f \<notin> set (columns data)}"
    by blast
  show ?thesis
    unfolding get_predictions_def Let_def eq by (simp add: predict_frame_def)
qed

theorem get_predictions_missing_features_witness:
  "get_predictions demo_model data_x [''x''] = Inl (ValueError_missing {''y''}) \<and>
   get_predictions demo_model data_a [''x''] = Inr [Fin 4, Fin (- 3), Fin 8]"
proof -
  have m1: "{f \<in> set (tl (names demo_model)). f \<notin> set (columns data_x)} = {''y''}"
    by (auto simp: demo_model_def data_x_def)
  have m2: "{f \<in> set (tl (names demo_model)). f \<notin> set (columns data_a)} = {}"
    by (auto simp: demo_model_def data_a_def)
  from get_predictions_missing_features [of demo_model data_x "[''x'']"] m1
  have a: "get_predictions demo_model data_x [''x''] = Inl (ValueError_missing {''y''})"
    by simp
  from get_predictions_missing_features [of demo_model data_a "[''x'']"] m2
  obtain ps where ps: "get_predictions demo_model data_a [''x''] = Inr ps"
      "length ps = length (rows data_a)"
      "\<forall>i < length (rows data_a). ps ! i = predict_row demo_model (rows data_a ! i)"
    by auto
  have len: "length ps = 3" using ps(2) by (simp add: data_a_def)
  have p0: "ps ! 0 = Fin 4" using ps(3)
    by (simp add: data_a_def predict_row_def demo_model_def obs_def)
  have p1: "ps ! 1 = Fin (- 3)" using ps(3)
    by (simp add: data_a_def predict_row_def demo_model_def obs_def)
  have p2: "ps ! 2 = Fin 8" using ps(3)
    by (simp add: data_a_def predict_row_def demo_model_def obs_def)
  have "ps = [Fin 4, Fin (- 3), Fin 8]"
    using len p0 p1 p2 by (intro nth_equalityI) (auto simp: less_Suc_eq numeral_3_eq_3 numeral_2_eq_2)
  with a ps(1) show ?thesis by simp
qed

section \<open>Properties of print\_growth\_rates\<close>

text \<open>
  On results fitted on arrays the doubling-time line shows the doubling time of the slope,
  then the one computed from the upper bound of the slope, then the one computed from its
  lower bound.
\<close>

lemma print_growth_rates_on_arrays:
  assumes "1 < length (params m)" and "1 < length (conf_int m)"
    and "params m ! 1 = Fin s" and "conf_int m ! 1 = (Fin lo, Fin hi)"
  shows "\<exists>r. print_growth_rates fallback to_factor to_doubling (OnArrays m) = Inr r \<and>
             doubling r = (to_doubling (Fin s), to_doubling (Fin hi), to_doubling (Fin lo))"
  using assms by (simp add: print_growth_rates_def growth_lines_def nth_err_def)

text \<open>
  C8. The claim: for every fitted model with a positive slope and a confidence interval
  \<open>[lo, hi]\<close> of the slope with \<open>lo < slope < hi\<close>, the doubling-time line shows the
  doubling time computed from \<open>hi\<close> first and the one computed from \<open>lo\<close> second. The code
  departs from it on the models that \<open>fit_ols_regression\<close> returns. For \<open>formula_model\<close>,
  with the slope 2 in \<open>[1, 3]\<close> and the intercept in \<open>[-7, -5]\<close>, the line shows the
  doubling time of 2, then the one computed from 3, then the one computed from \<open>-5\<close>, the
  upper bound of the intercept, where the claim has the one computed from 1; the line
  with the slope shows the interval as \<open>-5, 3\<close>. Without the positional reading of integer
  keys the function raises a \<open>KeyError\<close>.
\<close>

theorem print_growth_rates_formula_results:
  "print_growth_rates True to_factor to_doubling (OnPandas formula_model) =
     Inr \<lparr>adj_r2 = Fin (1 / 2),
          ooms = (Fin 2, Fin (- 5), Fin 3),
          factor = (to_factor (Fin 2), to_factor (Fin (- 5)), to_factor (Fin 3)),
          doubling = (to_doubling (Fin 2), to_doubling (Fin 3), to_doubling (Fin (- 5)))\<rparr> \<and>
   print_growth_rates False to_factor to_doubling (OnPandas formula_model) = Inl KeyError \<and>
   params formula_model ! 1 = Fin 2 \<and> conf_int formula_model ! 1 = (Fin 1, Fin 3)"
  by (simp add: print_growth_rates_def growth_lines_def nth_err_def formula_model_def)

text \<open>With the helpers of the spec the three doubling times are, in months:\<close>

lemma print_growth_rates_formula_results_months:
  "map_sum id doubling
     (print_growth_rates True ooms_to_factor_per_year ooms_to_doubling_time_months
        (OnPandas formula_model)) =
   Inr (Fin (log 10 2 / 2 * 12), Fin (log 10 2 / 3 * 12), Fin (- (log 10 2 / 5 * 12)))"
  by (simp add: print_growth_rates_def growth_lines_def nth_err_def formula_model_def
      ooms_to_doubling_time_months_def)

section \<open>Properties of fit\_ols\_regression\<close>

text \<open>
  C9. \<open>fit_ols_regression\<close> does not modify its input: whatever the features, the target
  and the flag, every frame of the caller's store, the argument among them, is the same
  after the call. With \<open>logy\<close> the transformed target is written to the frame that
  \<open>dropna\<close> created.
\<close>

theorem fit_ols_regression_preserves_input:
  "a < length st \<Longrightarrow>
   snd (fit_ols_regression smf_ols st data features target logy) ! a = st ! a"
  by (simp add: fit_ols_regression_def Let_def nth_append split: sum.splits)

theorem fit_ols_regression_preserves_input_witness:
  "(0::nat) < length [data_a] \<and>
   snd (fit_ols_regression (\<lambda>formula d. Inr demo_model) [data_a] 0 [''x''] ''y'' True) ! 0 = data_a"
proof -
  have h: "(0::nat) < length [data_a]" by simp
  from fit_ols_regression_preserves_input [OF h] h show ?thesis by simp
qed

section \<open>Properties of regression\_slope\_t\_test\<close>

text \<open>
  C1. The claim: the common subset is exactly the rows whose entity identifier occurs in
  both data sets. The code departs from it. In \<open>data_a\<close> and \<open>data_c\<close> the entity \<open>b\<close>
  occurs in both, at label 1 of the first and at label 0 of the second; the conjunction of
  line 91 compares the two frames label by label and holds at no label, so the common
  subset is empty and the comparison runs with \<open>rho = 0\<close>.
\<close>

theorem common_subset_misses_shared_entity:
  "''b'' \<in> System ` set (rows data_a) \<inter> System ` set (rows data_c) \<and>
   \<not> any_common data_a data_c \<and>
   rows (loc data_a (common_systems data_a data_c)) = [] \<and>
   regression_slope_t_test ols_simple t_cdf_df2 data_a data_c [''x''] ''y'' False True =
     Inr \<lparr>b1 = Fin 0, SE1 = Fin (sqrt 3), b2 = Fin 1, SE2 = Fin (sqrt 3), rho = Fin 0,
          t_stat = Fin (- (1 / sqrt 6)), df = 2,
          p_value = np_mul (Fin 2) (np_sub (Fin 1) (t_cdf_df2 (Fin (1 / sqrt 6)) 2))\<rparr>"
proof -
  have "''b'' \<in> System ` set (rows data_a) \<inter> System ` set (rows data_c)"
    by (simp add: data_a_def data_c_def obs_def)
  moreover have "\<not> any_common data_a data_c"
    by (simp add: any_common_def common_ac list_ex_iff)
  moreover have "rows (loc data_a (common_systems data_a data_c)) = []"
    by (simp add: loc_def common_ac)
  ultimately show ?thesis using run_ac by simp
qed




text \<open>
  C3, amended. The code has no check of the adjusted variance. Whenever the comparison
  returns a result whose adjusted variance \<open>SE1\<^sup>2 + SE2\<^sup>2 - 2 SE1 SE2 rho\<close> is a
  non-positive number, no error is raised: the test statistic reported is \<open>nan\<close> when
  the term is negative and the difference of the slopes divided by zero (an infinity, or
  \<open>nan\<close> for equal slopes) when it is zero.
\<close>

theorem slope_test_degenerate_variance:
  assumes "regression_slope_t_test fit t_cdf data1 data2 features target logy adj_corr = Inr r"
    and "adjusted_variance (SE1 r) (SE2 r) (rho r) = Fin v" and "v \<le> 0"
  shows "t_stat r = (if v < 0 then NaN else np_div (np_sub (b1 r) (b2 r)) (Fin 0)) \<and>
         \<not> isfinite (t_stat r)"
proof -
  from assms(1) obtain a where
    s: "slope_test_statistics fit t_cdf adj_corr a = Inr r"
    by (auto simp: regression_slope_t_test_def bind_err_Inr_iff)
  from stat_unfold [OF s] have
    t: "t_stat r = np_div (np_sub (b1 r) (b2 r))
                        (np_sqrt (adjusted_variance (SE1 r) (SE2 r) (rho r)))"
    by blast
  show ?thesis
    unfolding t assms(2) using assms(3)
    by (cases "np_sub (b1 r) (b2 r)") (auto simp: isfinite_def)
qed

theorem slope_test_degenerate_variance_witness:
  "adjusted_variance (Fin (sqrt 3)) (Fin (sqrt 3)) (Fin 1) = Fin 0 \<and>
   regression_slope_t_test ols_simple t_cdf_df2 data_b data_a [''x''] ''y'' False True =
     Inr \<lparr>b1 = Fin 1, SE1 = Fin (sqrt 3), b2 = Fin 0, SE2 = Fin (sqrt 3), rho = Fin 1,
          t_stat = PInf, df = 2, p_value = Fin 0\<rparr> \<and>
   PInf = np_div (np_sub (Fin 1) (Fin 0)) (Fin 0) \<and> \<not> isfinite PInf"
proof -
  have v: "adjusted_variance (Fin (sqrt 3)) (Fin (sqrt 3)) (Fin 1) = Fin 0"
    using adjusted_variance_sqrt3 [of 1] by simp
  from slope_test_degenerate_variance [OF run_ba, of 0] v run_ba
  show ?thesis by simp
qed

text \<open>
  The claim as stated fails: comparing \<open>data_b\<close> against \<open>data_a\<close>, both standard errors
  are \<open>sqrt 3\<close> and the residuals correlate with \<open>1\<close>, the adjusted variance is
  \<open>6 - 6 = 0\<close>, and the function returns an infinite test statistic with the
  p-value 0.
\<close>

theorem slope_test_degenerate_variance_counterexample:
  "regression_slope_t_test ols_simple t_cdf_df2 data_b data_a [''x''] ''y'' False True =
     Inr \<lparr>b1 = Fin 1, SE1 = Fin (sqrt 3), b2 = Fin 0, SE2 = Fin (sqrt 3), rho = Fin 1,
          t_stat = PInf, df = 2, p_value = Fin 0\<rparr> \<and>
   np_add (np_square (Fin (sqrt 3))) (np_square (Fin (sqrt 3))) = Fin 6 \<and>
   np_mul (np_mul (np_mul (Fin 2) (Fin (sqrt 3))) (Fin (sqrt 3))) (Fin 1) = Fin 6 \<and>
   adjusted_variance (Fin (sqrt 3)) (Fin (sqrt 3)) (Fin 1) = Fin 0"
proof -
  have "2 * sqrt 3 * sqrt 3 = (6::real)"
    by (simp add: mult.assoc [of 2 "sqrt 3" "sqrt 3"])
  then show ?thesis
    using adjusted_variance_sqrt3 [of 1] by (simp add: run_ba np_square_def)
qed



text \<open>
  C5. When the two data sets share no entity identifier, the comparison uses
  \<open>rho = 0\<close> whatever the adjustment flag: the run with the adjustment is the run without
  it.
\<close>

theorem slope_test_no_shared_entities:
  assumes "System ` set (rows data1) \<inter> System ` set (rows data2) = {}"
  shows "regression_slope_t_test fit t_cdf data1 data2 features target logy True =
         regression_slope_t_test fit t_cdf data1 data2 features target logy False \<and>
         (\<forall>r. regression_slope_t_test fit t_cdf data1 data2 features target logy adj_corr = Inr r
              \<longrightarrow> rho r = Fin 0)"
proof -
  have none: "common a = None"
    if a: "slope_test_arrays data1 data2 features target logy = Inr a" for a
  proof -
    from arrays_common [OF a] obtain d1 d2 where
      d: "dropna data1 (features @ [target]) = Inr d1" "dropna data2 (features @ [target]) = Inr d2"
      and c: "(common a \<noteq> None) = any_common d1 d2"
      by blast
    have "\<not> any_common d1 d2"
      using any_common_shared [of d1 d2] dropna_rows [OF d(1)] dropna_rows [OF d(2)] assms
      by blast
    with c show ?thesis by (cases "common a") simp_all
  qed
  show ?thesis
  proof (cases "slope_test_arrays data1 data2 features target logy")
    case (Inl e)
    then show ?thesis by (simp add: regression_slope_t_test_def)
  next
    case (Inr a)
    with none [OF Inr] show ?thesis
      by (auto simp: regression_slope_t_test_def stat_No_common [of a fit t_cdf True False]
          dest: stat_No_common_rho)
  qed
qed

theorem slope_test_no_shared_entities_witness:
  "System ` set (rows data_a) \<inter> System ` set (rows data_e) = {} \<and>
   regression_slope_t_test ols_simple t_cdf_df2 data_a data_e [''x''] ''y'' False True =
   regression_slope_t_test ols_simple t_cdf_df2 data_a data_e [''x''] ''y'' False False"
proof -
  have h: "System ` set (rows data_a) \<inter> System ` set (rows data_e) = {}"
    by (simp add: data_a_def data_e_def obs_def)
  from slope_test_no_shared_entities [OF h] h show ?thesis by blast
qed

text \<open>
  C6, amended. The code has no check of the sign of the target. With the flag set and the
  columns present, neither function raises at the transform: \<open>fit_ols_regression\<close> hands
  the fit of the formula interface the frame whose target column is the base-10 logarithm
  of the filtered target, \<open>regression_slope_t_test\<close> calls the solver on the logarithms of
  the filtered targets and returns what the statistics on them give, and the logarithm
  of a non-positive target is \<open>-inf\<close> for zero and \<open>nan\<close> for a negative value.
\<close>

theorem log_transform_not_rejected:
  assumes "set (features @ [target]) \<subseteq> set (columns (st ! data))"
    and "set (features @ [target]) \<subseteq> set (columns data1)"
    and "set (features @ [target]) \<subseteq> set (columns data2)"
    and "''System'' \<in> set (columns data1)" and "''System'' \<in> set (columns data2)"
    and "v \<le> 0"
  shows "(\<exists>d. dropna (st ! data) (features @ [target]) = Inr d \<and>
            fst (fit_ols_regression smf_ols st data features target True) =
              smf_ols (target @ '' ~ '' @ join '' + '' features)
                (set_column d target (map np_log10 (column d target))) \<and>
            column (set_column d target (map np_log10 (column d target))) target =
              map np_log10 (column d target)) \<and>
         (\<exists>d1 d2 a. dropna data1 (features @ [target]) = Inr d1 \<and>
            dropna data2 (features @ [target]) = Inr d2 \<and>
            slope_test_arrays data1 data2 features target True = Inr a \<and>
            y1 a = map np_log10 (column d1 target) \<and> y2 a = map np_log10 (column d2 target) \<and>
            regression_slope_t_test fit t_cdf data1 data2 features target True adj_corr =
              slope_test_statistics fit t_cdf adj_corr a \<and>
            (\<forall>e. fit (y1 a) (X1 a) = Inl e \<longrightarrow>
               regression_slope_t_test fit t_cdf data1 data2 features target True adj_corr = Inl e)) \<and>
         np_log10 (Fin v) = (if v = 0 then NInf else NaN)"
proof (intro conjI)
  from dropna_ok [OF assms(1)] obtain d where
    d: "dropna (st ! data) (features @ [target]) = Inr d" by blast
  have "fst (fit_ols_regression smf_ols st data features target True) =
      smf_ols (target @ '' ~ '' @ join '' + '' features)
        (set_column d target (map np_log10 (column d target)))"
    by (simp add: fit_ols_regression_def d Let_def)
  moreover have "column (set_column d target (map np_log10 (column d target))) target =
      map np_log10 (column d target)"
    by (rule column_set_column) (simp add: column_def)
  ultimately show "\<exists>d. dropna (st ! data) (features @ [target]) = Inr d \<and>
            fst (fit_ols_regression smf_ols st data features target True) =
              smf_ols (target @ '' ~ '' @ join '' + '' features)
                (set_column d target (map np_log10 (column d target))) \<and>
            column (set_column d target (map np_log10 (column d target))) target =
              map np_log10 (column d target)"
    using d by blast
next
  from dropna_ok [OF assms(2)] obtain d1 where
    d1: "dropna data1 (features @ [target]) = Inr d1" "columns d1 = columns data1" by blast
  from dropna_ok [OF assms(3)] obtain d2 where
    d2: "dropna data2 (features @ [target]) = Inr d2" "columns d2 = columns data2" by blast
  have s: "''System'' \<in> set (columns d1)" "''System'' \<in> set (columns d2)"
    using assms(4,5) d1(2) d2(2) by simp_all
  note a = arrays_eq [OF d1(1) d2(1) s, of True]
  show "\<exists>d1 d2 a. dropna data1 (features @ [target]) = Inr d1 \<and>
            dropna data2 (features @ [target]) = Inr d2 \<and>
            slope_test_arrays data1 data2 features target True = Inr a \<and>
            y1 a = map np_log10 (column d1 target) \<and> y2 a = map np_log10 (column d2 target) \<and>
            regression_slope_t_test fit t_cdf data1 data2 features target True adj_corr =
              slope_test_statistics fit t_cdf adj_corr a \<and>
            (\<forall>e. fit (y1 a) (X1 a) = Inl e \<longrightarrow>
               regression_slope_t_test fit t_cdf data1 data2 features target True adj_corr = Inl e)"
    apply (rule exI [of _ d1])
    apply (rule exI [of _ d2])
    apply (rule exI)
    apply (intro conjI)
          apply (rule d1(1))
         apply (rule d2(1))
        apply (rule a)
       apply simp
      apply simp
     apply (simp add: regression_slope_t_test_def a)
    apply (simp add: regression_slope_t_test_def a slope_test_statistics_def)
    done
next
  show "np_log10 (Fin v) = (if v = 0 then NInf else NaN)"
    using assms(6) by simp
qed

theorem log_transform_not_rejected_witness:
  "(\<exists>d. dropna ([data_a] ! 0) ([''x''] @ [''y'']) = Inr d \<and>
        fst (fit_ols_regression (\<lambda>formula d. Inr demo_model) [data_a] 0 [''x''] ''y'' True) =
          Inr demo_model \<and>
        column (set_column d ''y'' (map np_log10 (column d ''y''))) ''y'' = [Fin 0, NaN, Fin 0]) \<and>
   (\<exists>a. slope_test_arrays data_a data_b [''x''] ''y'' True = Inr a \<and>
        y1 a = [Fin 0, NaN, Fin 0] \<and>
        regression_slope_t_test ols_simple t_cdf_df2 data_a data_b [''x''] ''y'' True True =
          slope_test_statistics ols_simple t_cdf_df2 True a) \<and>
   np_log10 (Fin (- 2)) = NaN"
proof -
  have c: "set ([''x''] @ [''y'']) \<subseteq> set (columns ([data_a] ! 0))"
    "set ([''x''] @ [''y'']) \<subseteq> set (columns data_a)"
    "set ([''x''] @ [''y'']) \<subseteq> set (columns data_b)"
    "''System'' \<in> set (columns data_a)" "''System'' \<in> set (columns data_b)"
    "(- 2 :: real) \<le> 0"
    by (simp_all add: data_a_def data_b_def)
  have ya: "map np_log10 (column data_a ''y'') = [Fin 0, NaN, Fin 0]"
    by (simp add: column_def data_a_def obs_def)
  from log_transform_not_rejected [OF c, of "\<lambda>formula d. Inr demo_model" ols_simple t_cdf_df2 True]
  show ?thesis
    using ya by (auto simp: dropna_a dropna_b)
qed

text \<open>
  The claim as stated fails: the target of \<open>data_a\<close> holds \<open>-2\<close>, and with the flag set
  the comparison returns a result, every number of which is \<open>nan\<close>.
\<close>

theorem log_transform_counterexample:
  "column data_a ''y'' = [Fin 1, Fin (- 2), Fin 1] \<and>
   regression_slope_t_test ols_simple t_cdf_df2 data_a data_b [''x''] ''y'' True True =
     Inr \<lparr>b1 = NaN, SE1 = NaN, b2 = NaN, SE2 = NaN, rho = NaN, t_stat = NaN, df = 2,
          p_value = NaN\<rparr>"
proof -
  have "column data_a ''y'' = [Fin 1, Fin (- 2), Fin 1]"
    by (simp add: column_def data_a_def obs_def)
  with run_log show ?thesis by blast
qed

end
